theory Spec2Isabelle
  imports Complex_Main "HOL-Library.Multiset" "HOL-Library.AList"
begin

section \<open>Harmonic Stack: the launcher's allocation engine\<close>

text \<open>
  The embedding of \<^verbatim>\<open>harmonic_launcher.py\<close>. Python floats are modelled as exact
  rationals (\<^typ>\<open>rat\<close>): sums, products and comparisons are those of the decimal
  constants of the source, without binary rounding error. Python dictionaries that are
  iterated or summed over are association lists in insertion order; assigning
  \<^verbatim>\<open>d[k] = v\<close> is \<^const>\<open>AList.update\<close>, which overwrites an existing key in
  place and appends a new one, as a Python \<^verbatim>\<open>dict\<close> does.
\<close>

subsection \<open>Model catalogue and hardware descriptor\<close>

record model_spec =
  base_gb :: rat
  kv_gb :: rat
  tier :: int
  source :: string

definition qwen3_4b :: model_spec where
  "qwen3_4b = \<lparr>base_gb = 5/2, kv_gb = 3/10, tier = 1, source = ''qwen3:4b''\<rparr>"

definition MODELS :: "(string \<times> model_spec) list" where
  "MODELS =
    [(''executive'', \<lparr>base_gb = 5/2, kv_gb = 3/10, tier = 1, source = ''qwen3:4b''\<rparr>),
     (''operator'', \<lparr>base_gb = 5/2, kv_gb = 3/10, tier = 1, source = ''qwen3:4b''\<rparr>),
     (''technical_director'', \<lparr>base_gb = 26/5, kv_gb = 1/2, tier = 2, source = ''qwen3:8b''\<rparr>),
     (''research_director'', \<lparr>base_gb = 26/5, kv_gb = 1/2, tier = 2, source = ''qwen3:8b''\<rparr>),
     (''creative_director'', \<lparr>base_gb = 26/5, kv_gb = 1/2, tier = 2, source = ''qwen3:8b''\<rparr>),
     (''analyst'', \<lparr>base_gb = 26/5, kv_gb = 1/2, tier = 3, source = ''qwen3:8b''\<rparr>),
     (''coder'', \<lparr>base_gb = 93/10, kv_gb = 4/5, tier = 3, source = ''qwen3:14b''\<rparr>),
     (''architect'', \<lparr>base_gb = 18, kv_gb = 6/5, tier = 4, source = ''qwen3:30b-a3b''\<rparr>),
     (''qwen3:4b'', qwen3_4b),
     (''qwen3:8b'', \<lparr>base_gb = 26/5, kv_gb = 1/2, tier = 2, source = ''qwen3:8b''\<rparr>),
     (''qwen3:14b'', \<lparr>base_gb = 93/10, kv_gb = 4/5, tier = 3, source = ''qwen3:14b''\<rparr>),
     (''qwen3:30b-a3b'', \<lparr>base_gb = 18, kv_gb = 6/5, tier = 4, source = ''qwen3:30b-a3b''\<rparr>)]"

text \<open>\<^verbatim>\<open>MODELS.get(m, MODELS['qwen3:4b'])\<close>: the catalogue entry, or the entry of
  \<^verbatim>\<open>qwen3:4b\<close> for a name the catalogue does not have.\<close>

definition get_spec :: "string \<Rightarrow> model_spec" where
  "get_spec m = (case map_of MODELS m of Some s \<Rightarrow> s | None \<Rightarrow> qwen3_4b)"

definition PARALLEL_STEPS :: "int list" where
  "PARALLEL_STEPS = [24, 20, 16, 12, 8, 6, 4, 2, 1]"

text \<open>The keys of the hardware dictionary that \<^verbatim>\<open>allocate_stack\<close> reads.
  \<^verbatim>\<open>gpu_mem_gb\<close> is read by subscript and is always there; the other three are read
  with \<^verbatim>\<open>.get(key, default)\<close> and may be absent.\<close>

record hardware =
  gpu_mem_gb :: rat
  reserve_pct :: "rat option"
  peak_parallel :: "int option"
  max_parallel :: "int option"

definition hw_reserve :: "hardware \<Rightarrow> rat" where
  "hw_reserve hw = (case reserve_pct hw of Some r \<Rightarrow> r | None \<Rightarrow> 3/20)"

definition hw_peak :: "hardware \<Rightarrow> int" where
  "hw_peak hw = (case peak_parallel hw of Some p \<Rightarrow> p | None \<Rightarrow> 16)"

definition hw_max :: "hardware \<Rightarrow> int" where
  "hw_max hw = (case max_parallel hw of Some p \<Rightarrow> p | None \<Rightarrow> 24)"

subsection \<open>Numeric helpers of Python\<close>

text \<open>\<^verbatim>\<open>int(x)\<close> on a float truncates toward zero.\<close>

definition py_int :: "rat \<Rightarrow> int" where
  "py_int x = (if 0 \<le> x then \<lfloor>x\<rfloor> else \<lceil>x\<rceil>)"

text \<open>\<^verbatim>\<open>round(x, 1)\<close>: to one decimal place, a tie going to the even digit.\<close>

definition round1 :: "rat \<Rightarrow> rat" where
  "round1 x =
     (let y = x * 10; f = \<lfloor>y\<rfloor>; d = y - of_int f
      in of_int (if d < 1/2 then f else if 1/2 < d then f + 1
                 else if even f then f else f + 1) / 10)"

subsection \<open>Memory allocation\<close>

definition model_memory :: "string \<Rightarrow> int \<Rightarrow> rat" where
  "model_memory model_name parallel =
     base_gb (get_spec model_name) + of_int parallel * kv_gb (get_spec model_name)"

record alloc_entry =
  parallel :: int
  memory_gb :: rat
  entry_tier :: int
  entry_source :: string
  status :: "string option"

text \<open>The tier-based parallel target, clamped:
  \<^verbatim>\<open>max(min_parallel, min(target_parallel, max_parallel))\<close>.\<close>

definition target_parallel :: "int \<Rightarrow> int \<Rightarrow> int \<Rightarrow> int \<Rightarrow> int" where
  "target_parallel t peak mx min_parallel =
     max min_parallel
       (min (if t = 1 then peak
             else if t = 2 then py_int (of_int peak * (3/4))
             else if t = 3 then py_int (of_int peak * (1/2))
             else py_int (of_int peak * (33/100)))
            mx)"

text \<open>The inner loop \<^verbatim>\<open>for p in PARALLEL_STEPS\<close>: \<^verbatim>\<open>continue\<close> above the target,
  \<^verbatim>\<open>break\<close> below \<^verbatim>\<open>min_parallel\<close>, and \<^verbatim>\<open>break\<close> with the degree and its memory
  at the first candidate that fits. \<open>None\<close> is \<^verbatim>\<open>allocated == False\<close>.\<close>

fun scan_steps :: "string \<Rightarrow> int \<Rightarrow> int \<Rightarrow> rat \<Rightarrow> int list \<Rightarrow> (int \<times> rat) option" where
  "scan_steps model_name target min_parallel available [] = None"
| "scan_steps model_name target min_parallel available (p # ps) =
     (if p > target then scan_steps model_name target min_parallel available ps
      else if p < min_parallel then None
      else (let mem_needed = model_memory model_name p
            in if mem_needed \<le> available then Some (p, mem_needed)
               else scan_steps model_name target min_parallel available ps))"

text \<open>One iteration of \<^verbatim>\<open>for model_name, spec in model_specs\<close>, on the pair of the
  allocation dictionary and the remaining budget.\<close>

fun alloc_step :: "hardware \<Rightarrow> int \<Rightarrow> (string \<times> alloc_entry) list \<times> rat \<Rightarrow>
    string \<times> model_spec \<Rightarrow> (string \<times> alloc_entry) list \<times> rat" where
  "alloc_step hw min_parallel (allocation, available) (model_name, spec) =
     (case scan_steps model_name
             (target_parallel (tier spec) (hw_peak hw) (hw_max hw) min_parallel)
             min_parallel available PARALLEL_STEPS of
        Some (p, mem_needed) \<Rightarrow>
          (AList.update model_name
             \<lparr>parallel = p, memory_gb = round1 mem_needed, entry_tier = tier spec,
              entry_source = source spec, status = None\<rparr> allocation,
           available - mem_needed)
      | None \<Rightarrow>
          (AList.update model_name
             \<lparr>parallel = 0, memory_gb = 0, entry_tier = tier spec,
              entry_source = source spec, status = Some ''skipped''\<rparr> allocation,
           available))"

text \<open>\<^verbatim>\<open>model_specs\<close>: the names paired with their specifications, sorted by tier with
  Python's stable sort.\<close>

definition model_specs :: "string list \<Rightarrow> (string \<times> model_spec) list" where
  "model_specs models = sort_key (\<lambda>x. tier (snd x)) (map (\<lambda>m. (m, get_spec m)) models)"

definition initial_available :: "hardware \<Rightarrow> rat" where
  "initial_available hw = gpu_mem_gb hw * (1 - hw_reserve hw)"

text \<open>The whole of \<^verbatim>\<open>allocate_stack\<close>, keeping the budget that is left when the loop
  ends beside the dictionary it returns.\<close>

definition allocate_run :: "string list \<Rightarrow> hardware \<Rightarrow> int \<Rightarrow>
    (string \<times> alloc_entry) list \<times> rat" where
  "allocate_run models hw min_parallel =
     foldl (alloc_step hw min_parallel) ([], initial_available hw) (model_specs models)"

definition allocate_stack :: "string list \<Rightarrow> hardware \<Rightarrow> int \<Rightarrow> (string \<times> alloc_entry) list" where
  "allocate_stack models hw min_parallel = fst (allocate_run models hw min_parallel)"




subsection \<open>The allocation rule as the specification words it\<close>




text \<open>What every entry of the returned dictionary looks like, for the model name it is
  stored under: the tier and source of the model's specification, and either a candidate
  degree with no status key, or the skipped entry.\<close>

definition entry_ok :: "string \<Rightarrow> alloc_entry \<Rightarrow> bool" where
  "entry_ok k e =
     (entry_tier e = tier (get_spec k) \<and> entry_source e = source (get_spec k) \<and>
      (parallel e \<in> set PARALLEL_STEPS \<and> status e = None \<or>
       parallel e = 0 \<and> memory_gb e = 0 \<and> status e = Some ''skipped''))"

definition report_inv :: "(string \<times> alloc_entry) list \<Rightarrow> bool" where
  "report_inv al = (distinct (map fst al) \<and> (\<forall>kv \<in> set al. entry_ok (fst kv) (snd kv)))"

section \<open>Operator Oversight: the coordination layer\<close>

text \<open>
  The embedding of \<^verbatim>\<open>operator_oversight.py\<close>. A Python \<^verbatim>\<open>str\<close> is a sequence of
  Unicode code points and \<^verbatim>\<open>len\<close> and slicing count code points, so a string is a list of
  code points (natural numbers); an ASCII literal of the source is \<open>lit\<close> of the Isabelle
  literal. The object's attributes are the fields of the record \<open>oversight\<close>, and every method
  takes the object and returns the new one. The one effect outside the object is the HTTP
  request of \<^verbatim>\<open>_generate\<close>: the outside world is a function from the request to what
  comes back, and the methods return the list of the requests they sent.
\<close>

subsection \<open>Strings\<close>

type_synonym pystr = "nat list"

definition lit :: "string \<Rightarrow> pystr" where
  "lit s = map of_char s"

definition NL :: pystr where
  "NL = [10]"

text \<open>\<^verbatim>\<open>str.isspace\<close> on one code point, which is what \<^verbatim>\<open>str.strip()\<close> removes.\<close>

definition is_space :: "nat \<Rightarrow> bool" where
  "is_space c = (c \<in> set [9, 10, 11, 12, 13, 28, 29, 30, 31, 32, 133, 160, 5760,
      8192, 8193, 8194, 8195, 8196, 8197, 8198, 8199, 8200, 8201, 8202,
      8232, 8233, 8239, 8287, 12288])"

definition strip :: "pystr \<Rightarrow> pystr" where
  "strip s = rev (dropWhile is_space (rev (dropWhile is_space s)))"

text \<open>\<^verbatim>\<open>sep.join(xs)\<close>.\<close>

fun str_join :: "pystr \<Rightarrow> pystr list \<Rightarrow> pystr" where
  "str_join sep [] = []"
| "str_join sep [x] = x"
| "str_join sep (x # y # ys) = x @ sep @ str_join sep (y # ys)"

text \<open>\<^verbatim>\<open>str(n)\<close> for an integer, as an f-string formats it.\<close>

fun str_nat :: "nat \<Rightarrow> pystr" where
  "str_nat n = (if n < 10 then [48 + n] else str_nat (n div 10) @ [48 + n mod 10])"

declare str_nat.simps [simp del]

definition str_int :: "int \<Rightarrow> pystr" where
  "str_int i = (if i < 0 then 45 # str_nat (nat (- i)) else str_nat (nat i))"

text \<open>\<^verbatim>\<open>xs[-n:]\<close>: the last \<open>n\<close> elements, all of them when there are fewer.\<close>

definition last_n :: "nat \<Rightarrow> 'a list \<Rightarrow> 'a list" where
  "last_n n xs = drop (length xs - n) xs"

subsection \<open>State\<close>

record activity_event =
  ev_task_id :: pystr
  ev_stage :: pystr
  ev_model :: pystr
  ev_category :: pystr
  ev_detail :: pystr
  ev_time :: pystr

record success_record =
  s_category :: pystr
  s_approach :: pystr
  s_profile :: pystr
  s_count :: int

record failure_record =
  f_category :: pystr
  f_approach :: pystr

text \<open>\<open>client\<close> is whether \<^verbatim>\<open>self._client\<close> is set: \<^verbatim>\<open>initialize\<close> sets it when
  \<^verbatim>\<open>httpx\<close> can be imported and leaves it \<^verbatim>\<open>None\<close> otherwise.\<close>

record oversight =
  ollama_url :: pystr
  operator_model :: pystr
  operator_timeout :: int
  activity_log :: "activity_event list"
  successful_approaches :: "success_record list"
  failed_approaches :: "failure_record list"
  active_profiles :: "(pystr \<times> pystr) list"
  groups_processed :: int
  total_suggestions_made :: int
  client :: bool

definition init :: "pystr \<Rightarrow> pystr \<Rightarrow> int \<Rightarrow> oversight" where
  "init url model_id timeout =
     \<lparr>ollama_url = url, operator_model = model_id, operator_timeout = timeout,
      activity_log = [], successful_approaches = [], failed_approaches = [],
      active_profiles = [], groups_processed = 0, total_suggestions_made = 0,
      client = False\<rparr>"

definition initialize :: "bool \<Rightarrow> oversight \<Rightarrow> oversight" where
  "initialize httpx_installed s = s\<lparr>client := httpx_installed\<rparr>"

subsection \<open>Observation methods\<close>

text \<open>\<open>now\<close> is \<^verbatim>\<open>datetime.now().isoformat()\<close>, read from the clock by the caller.\<close>

definition observe :: "pystr \<Rightarrow> pystr \<Rightarrow> pystr \<Rightarrow> pystr \<Rightarrow> pystr \<Rightarrow> pystr \<Rightarrow>
    oversight \<Rightarrow> oversight" where
  "observe task_id stage model_id category detail now s =
     s\<lparr>activity_log := activity_log s @
        [\<lparr>ev_task_id = task_id, ev_stage = stage, ev_model = model_id,
          ev_category = category, ev_detail = take 300 detail, ev_time = now\<rparr>]\<rparr>"

definition record_profile :: "pystr \<Rightarrow> pystr \<Rightarrow> oversight \<Rightarrow> oversight" where
  "record_profile task_id profile s =
     s\<lparr>active_profiles := AList.update task_id (take 500 profile) (active_profiles s)\<rparr>"

definition record_success :: "pystr \<Rightarrow> pystr \<Rightarrow> int \<Rightarrow> pystr \<Rightarrow> oversight \<Rightarrow> oversight" where
  "record_success category approach n profile s =
     s\<lparr>successful_approaches := successful_approaches s @
        [\<lparr>s_category = category, s_approach = take 400 approach,
          s_profile = take 400 profile, s_count = n\<rparr>]\<rparr>"

definition record_failure :: "pystr \<Rightarrow> pystr \<Rightarrow> oversight \<Rightarrow> oversight" where
  "record_failure category approach s =
     s\<lparr>failed_approaches := failed_approaches s @
        [\<lparr>f_category = category, f_approach = take 300 approach\<rparr>]\<rparr>"

subsection \<open>Briefing generation\<close>

definition build_activity_summary :: "oversight \<Rightarrow> pystr \<Rightarrow> pystr" where
  "build_activity_summary s category =
     (let cat_fails = filter (\<lambda>f. f_category f = category) (failed_approaches s);
          other_fails = last_n 2 (filter (\<lambda>f. f_category f \<noteq> category) (failed_approaches s))
      in str_join NL
          ((if successful_approaches s \<noteq> [] then
              (lit ''SOLVED ('' @ str_int (int (length (successful_approaches s))) @
                 lit '' groups so far):'') #
              map (\<lambda>r. lit ''  ['' @ s_category r @ lit ''] '' @ take 120 (s_approach r) @
                        lit '' -> solved '' @ str_int (s_count r))
                (last_n 5 (successful_approaches s))
            else []) @
           (if cat_fails \<noteq> [] then
              (lit ''FAILED for '' @ category @ lit '' tasks:'') #
              map (\<lambda>f. lit ''  '' @ take 120 (f_approach f)) (last_n 3 cat_fails)
            else []) @
           (if other_fails \<noteq> [] then
              lit ''Other failed approaches:'' #
              map (\<lambda>f. lit ''  ['' @ f_category f @ lit ''] '' @ take 80 (f_approach f)) other_fails
            else [])))"

text \<open>The JSON payload that \<^verbatim>\<open>_generate\<close> posts to \<^verbatim>\<open>{ollama_url}/api/generate\<close>,
  with the timeout of the call.\<close>

record gen_request =
  rq_url :: pystr
  rq_model :: pystr
  rq_prompt :: pystr
  rq_stream :: bool
  rq_think :: bool
  rq_temperature :: rat
  rq_num_predict :: int
  rq_system :: "pystr option"
  rq_timeout :: int

text \<open>The two keys of the response object that the code reads, each a string when it is
  there; \<open>None\<close> is an absent key.\<close>

record gen_payload =
  response :: "pystr option"
  thinking :: "pystr option"

text \<open>What comes back from the request: an exception (a timeout, a transport error), or an
  HTTP status with a body, where the body \<open>None\<close> is one that \<^verbatim>\<open>resp.json()\<close> cannot
  read as an object.\<close>

datatype transport = Transport_error | Reply int "gen_payload option"

definition make_request :: "oversight \<Rightarrow> pystr \<Rightarrow> pystr \<Rightarrow> gen_request" where
  "make_request s prompt system =
     \<lparr>rq_url = ollama_url s @ lit ''/api/generate'', rq_model = operator_model s,
      rq_prompt = prompt, rq_stream = False, rq_think = False, rq_temperature = 3/10,
      rq_num_predict = 512, rq_system = (if system \<noteq> [] then Some system else None),
      rq_timeout = operator_timeout s\<rparr>"

text \<open>\<^verbatim>\<open>_generate\<close>, given what came back. The whole body is in a \<^verbatim>\<open>try\<close> whose
  handler returns \<^verbatim>\<open>None\<close>; a status other than 200 falls through to \<^verbatim>\<open>return None\<close>.
  With a client (the \<^verbatim>\<open>httpx\<close> path) an empty \<^verbatim>\<open>response\<close> falls back to a non-empty
  \<^verbatim>\<open>thinking\<close>; without one (the \<^verbatim>\<open>aiohttp\<close> path) the code returns
  \<^verbatim>\<open>data.get("response", "")\<close> as it is.\<close>

definition generate :: "oversight \<Rightarrow> transport \<Rightarrow> pystr option" where
  "generate s back =
     (case back of
        Transport_error \<Rightarrow> None
      | Reply status_code body \<Rightarrow>
          if status_code = 200 then
            (case body of
               None \<Rightarrow> None
             | Some data \<Rightarrow>
                 (let result = (case response data of Some r \<Rightarrow> r | None \<Rightarrow> [])
                  in if client s then
                       (if result = [] \<and> thinking data \<noteq> None \<and> thinking data \<noteq> Some []
                        then thinking data else Some result)
                     else Some result))
          else None)"

definition briefing_prompt :: "pystr \<Rightarrow> pystr \<Rightarrow> pystr \<Rightarrow> int \<Rightarrow> pystr" where
  "briefing_prompt activity category profile group_size =
     lit ''You are the Operator coordinating research across multiple task groups.'' @ NL @
     NL @
     lit ''Current batch progress:'' @ NL @
     activity @ NL @
     NL @
     lit ''A new group is about to be researched:'' @ NL @
     lit ''- Category: '' @ category @ NL @
     lit ''- Group size: '' @ str_int group_size @ lit '' tasks'' @ NL @
     lit ''- Profile: '' @ take 300 profile @ NL @
     NL @
     lit ''In 2-3 sentences, suggest what the worker should consider:'' @ NL @
     lit ''- What worked for similar tasks that might apply here?'' @ NL @
     lit ''- What failed that should be avoided?'' @ NL @
     lit ''- Any patterns you notice across groups?'' @ NL @
     NL @
     lit ''Be specific and concise. These are suggestions, not orders.''"

definition briefing_system :: pystr where
  "briefing_system =
     lit ''You are the Operator - an executive coordinator for AI research. '' @
     lit ''Generate brief, specific suggestions to help workers '' @
     lit ''avoid duplicating effort. Be direct and actionable.''"

definition operator_notes :: pystr where
  "operator_notes = NL @ lit ''[Operator notes] ''"

text \<open>\<^verbatim>\<open>generate_briefing\<close>: the text, the object after the call, and the requests
  sent. \<open>env\<close> is the outside world.\<close>

definition generate_briefing :: "pystr \<Rightarrow> pystr \<Rightarrow> pystr \<Rightarrow> int \<Rightarrow> (gen_request \<Rightarrow> transport) \<Rightarrow>
    oversight \<Rightarrow> pystr \<times> oversight \<times> gen_request list" where
  "generate_briefing task_id category profile group_size env s =
     (if successful_approaches s = [] \<and> failed_approaches s = [] then ([], s, [])
      else
        (let activity = build_activity_summary s category
         in if strip activity = [] then ([], s, [])
            else
              (let rq = make_request s (briefing_prompt activity category profile group_size)
                          briefing_system
               in case generate s (env rq) of
                    None \<Rightarrow> ([], s, [rq])
                  | Some briefing \<Rightarrow>
                      if briefing \<noteq> [] \<and> 20 < length (strip briefing) then
                        (operator_notes @ strip briefing,
                         s\<lparr>total_suggestions_made := total_suggestions_made s + 1\<rparr>, [rq])
                      else ([], s, [rq]))))"

subsection \<open>Main entry point\<close>

text \<open>Tier 1, the mechanical context: \<^verbatim>\<open>mech_text\<close> of \<^verbatim>\<open>get_context\<close>.\<close>

definition mech_text :: "oversight \<Rightarrow> pystr \<Rightarrow> pystr" where
  "mech_text s category =
     (let relevant_successes = filter (\<lambda>r. s_category r = category) (successful_approaches s);
          cat_failures = filter (\<lambda>f. f_category f = category) (failed_approaches s)
      in str_join NL
          ((if relevant_successes \<noteq> [] then
              lit ''Prior successes for similar tasks:'' #
              map (\<lambda>r. lit ''  - '' @ take 150 (s_approach r) @ lit '' (solved '' @
                        str_int (s_count r) @ lit '')'')
                (take 3 relevant_successes)
            else []) @
           (if cat_failures \<noteq> [] then
              lit ''Prior failures (avoid):'' #
              map (\<lambda>f. lit ''  - '' @ take 100 (f_approach f)) (take 3 cat_failures)
            else [])))"

definition get_context :: "pystr \<Rightarrow> pystr \<Rightarrow> pystr \<Rightarrow> int \<Rightarrow> (gen_request \<Rightarrow> transport) \<Rightarrow>
    oversight \<Rightarrow> pystr \<times> oversight \<times> gen_request list" where
  "get_context task_id category profile group_size env s =
     (let s1 = s\<lparr>groups_processed := groups_processed s + 1\<rparr>;
          total_approaches = length (successful_approaches s1) + length (failed_approaches s1);
          (briefing, s2, sent) =
             (if 2 \<le> total_approaches
              then generate_briefing task_id category profile group_size env s1
              else ([], s1, []))
      in (str_join (NL @ NL) (filter (\<lambda>p. strip p \<noteq> []) [mech_text s1 category, briefing]),
          s2, sent))"

subsection \<open>Sessions\<close>

text \<open>The calls a worker can make on the object, and the object after a sequence of them
  from a fresh one.\<close>

datatype call =
    Initialize bool
  | Observe pystr pystr pystr pystr pystr pystr
  | Record_profile pystr pystr
  | Record_success pystr pystr int pystr
  | Record_failure pystr pystr
  | Get_context pystr pystr pystr int "gen_request \<Rightarrow> transport"

fun exec :: "oversight \<Rightarrow> call \<Rightarrow> oversight" where
  "exec s (Initialize b) = initialize b s"
| "exec s (Observe task_id stage model_id category detail now) =
     observe task_id stage model_id category detail now s"
| "exec s (Record_profile task_id profile) = record_profile task_id profile s"
| "exec s (Record_success category approach n profile) =
     record_success category approach n profile s"
| "exec s (Record_failure category approach) = record_failure category approach s"
| "exec s (Get_context task_id category profile group_size env) =
     fst (snd (get_context task_id category profile group_size env s))"

definition run :: "oversight \<Rightarrow> call list \<Rightarrow> oversight" where
  "run s calls = foldl exec s calls"

text \<open>The truncation caps on everything stored.\<close>

definition caps_ok :: "oversight \<Rightarrow> bool" where
  "caps_ok s =
     ((\<forall>e \<in> set (activity_log s). length (ev_detail e) \<le> 300) \<and>
      (\<forall>r \<in> set (successful_approaches s). length (s_approach r) \<le> 400 \<and> length (s_profile r) \<le> 400) \<and>
      (\<forall>f \<in> set (failed_approaches s). length (f_approach f) \<le> 300) \<and>
      (\<forall>kv \<in> set (active_profiles s). length (snd kv) \<le> 500))"

text \<open>The calls that record an approach.\<close>

definition records_approach :: "call \<Rightarrow> bool" where
  "records_approach c =
     (case c of Record_success _ _ _ _ \<Rightarrow> True | Record_failure _ _ \<Rightarrow> True | _ \<Rightarrow> False)"


subsection \<open>A session used in the examples\<close>

text \<open>A fresh object on which two failures of the category \<^verbatim>\<open>spatial\<close> were recorded,
  and a generated text of 21 characters: ten characters followed by eleven newlines.\<close>

definition two_failures :: oversight where
  "two_failures =
     record_failure (lit ''spatial'') (lit ''pixel compare'')
       (record_failure (lit ''spatial'') (lit ''BFS flood fill'')
          (init (lit ''http://localhost:11434'') (lit ''analyst'') 30))"

definition padded_reply :: pystr where
  "padded_reply = lit ''Avoid BFS.'' @ NL @ NL @ NL @ NL @ NL @ NL @ NL @ NL @ NL @ NL @ NL"

section \<open>Properties of the allocation engine\<close>

subsection \<open>Arithmetic and catalogue facts\<close>













subsection \<open>The inner scan and the budget invariant\<close>

lemma scan_steps_Some:
  "scan_steps n t mn a ps = Some (p, mem) \<Longrightarrow>
     p \<in> set ps \<and> p \<le> t \<and> mn \<le> p \<and> mem = model_memory n p \<and> mem \<le> a"
  by (induction ps) (auto simp: Let_def split: if_splits)

lemma PARALLEL_STEPS_positive: "p \<in> set PARALLEL_STEPS \<Longrightarrow> 1 \<le> p"
  by (auto simp: PARALLEL_STEPS_def)










subsection \<open>The scan returns the largest qualifying candidate\<close>







subsection \<open>The stable sort by tier and the keys a step writes\<close>







subsection \<open>Every model gets an entry\<close>

lemma update_entries_all:
  "P k e \<Longrightarrow> \<forall>kv \<in> set al. P (fst kv) (snd kv) \<Longrightarrow>
     \<forall>kv \<in> set (AList.update k e al). P (fst kv) (snd kv)"
  by (induction al) auto

lemma alloc_step_keys:
  "fst ` set (fst (alloc_step hw mn st x)) = insert (fst x) (fst ` set (fst st))"
  by (cases st; cases x) (simp add: dom_update split: option.splits)

lemma foldl_alloc_step_keys:
  "fst ` set (fst (foldl (alloc_step hw mn) st xs)) = fst ` set xs \<union> fst ` set (fst st)"
  by (induction xs arbitrary: st) (auto simp: alloc_step_keys)

lemma alloc_step_report_inv:
  assumes "report_inv (fst st)" and "snd x = get_spec (fst x)"
  shows "report_inv (fst (alloc_step hw mn st x))"
proof -
  obtain al a where st: "st = (al, a)" by (cases st)
  obtain n s where x: "x = (n, s)" by (cases x)
  from assms st x have d: "distinct (map fst al)" and ok: "\<forall>kv \<in> set al. entry_ok (fst kv) (snd kv)"
    and s: "s = get_spec n" by (simp_all add: report_inv_def)
  show ?thesis
  proof (cases "scan_steps n (target_parallel (tier s) (hw_peak hw) (hw_max hw) mn) mn a PARALLEL_STEPS")
    case None
    let ?e = "\<lparr>parallel = 0, memory_gb = 0, entry_tier = tier s, entry_source = source s,
                status = Some ''skipped''\<rparr>"
    have "entry_ok n ?e" by (simp add: entry_ok_def s)
    then have "\<forall>kv \<in> set (AList.update n ?e al). entry_ok (fst kv) (snd kv)"
      using ok by (rule update_entries_all)
    with None d show ?thesis by (simp add: st x report_inv_def distinct_update)
  next
    case (Some r)
    obtain p mem where r: "r = (p, mem)" by (cases r)
    from Some r scan_steps_Some have p: "p \<in> set PARALLEL_STEPS" by blast
    let ?e = "\<lparr>parallel = p, memory_gb = round1 mem, entry_tier = tier s, entry_source = source s,
                status = None\<rparr>"
    from p have "entry_ok n ?e" by (simp add: entry_ok_def s)
    then have "\<forall>kv \<in> set (AList.update n ?e al). entry_ok (fst kv) (snd kv)"
      using ok by (rule update_entries_all)
    with Some r d show ?thesis by (simp add: st x report_inv_def distinct_update)
  qed
qed

lemma foldl_alloc_step_report_inv:
  "report_inv (fst st) \<Longrightarrow> \<forall>x \<in> set xs. snd x = get_spec (fst x) \<Longrightarrow>
     report_inv (fst (foldl (alloc_step hw mn) st xs))"
  by (induction xs arbitrary: st) (simp_all add: alloc_step_report_inv)

lemma allocate_stack_report_inv: "report_inv (allocate_stack models hw mn)"
  unfolding allocate_stack_def allocate_run_def
  by (rule foldl_alloc_step_report_inv) (auto simp: report_inv_def model_specs_def)

lemma allocate_stack_keys: "fst ` set (allocate_stack models hw mn) = set models"
  unfolding allocate_stack_def allocate_run_def foldl_alloc_step_keys
  by (force simp: model_specs_def)

lemma allocate_stack_entry:
  assumes "m \<in> set models"
  shows "\<exists>e. map_of (allocate_stack models hw mn) m = Some e \<and> entry_ok m e"
proof -
  from assms have "m \<in> fst ` set (allocate_stack models hw mn)"
    by (simp add: allocate_stack_keys)
  then obtain e where "map_of (allocate_stack models hw mn) m = Some e"
    by (metis domD dom_map_of_conv_image_fst)
  moreover from this have "(m, e) \<in> set (allocate_stack models hw mn)" by (rule map_of_SomeD)
  then have "entry_ok m e" using allocate_stack_report_inv [of models hw mn]
    by (auto simp: report_inv_def)
  ultimately show ?thesis by blast
qed


section \<open>Properties of the coordination layer\<close>

subsection \<open>Blank strings, the activity summary and the threshold of tier 2\<close>

lemma strip_Nil_iff: "strip s = [] \<longleftrightarrow> (\<forall>c \<in> set s. is_space c)"
proof
  assume "strip s = []"
  then have "dropWhile is_space (rev (dropWhile is_space s)) = []" by (simp add: strip_def)
  then have "\<forall>c \<in> set (dropWhile is_space s). is_space c"
    by (simp add: dropWhile_eq_Nil_conv)
  moreover have "s = takeWhile is_space s @ dropWhile is_space s" by simp
  ultimately show "\<forall>c \<in> set s. is_space c"
    by (metis Un_iff set_append set_takeWhileD)
next
  assume "\<forall>c \<in> set s. is_space c"
  then show "strip s = []" by (auto simp: strip_def dest: set_dropWhileD)
qed

lemma strip_Nil [simp]: "strip [] = []"
  by (simp add: strip_def)

lemma str_join_Cons_set: "set x \<subseteq> set (str_join sep (x # xs))"
  by (cases xs) auto

lemma strip_str_join_nonblank:
  assumes "c \<in> set x" and "\<not> is_space c"
  shows "strip (str_join sep (x # xs)) \<noteq> []"
  using assms str_join_Cons_set [of x sep xs] by (auto simp: strip_Nil_iff)

lemma last_n_nonempty: "xs \<noteq> [] \<Longrightarrow> 0 < n \<Longrightarrow> last_n n xs \<noteq> []"
  by (cases xs) (auto simp: last_n_def)

lemma summary_nonblank:
  assumes "successful_approaches s \<noteq> [] \<or> failed_approaches s \<noteq> []"
  shows "strip (build_activity_summary s category) \<noteq> []"
proof (cases "successful_approaches s \<noteq> []")
  case True
  have "\<not> is_space 83" by (simp add: is_space_def)
  moreover have "83 \<in> set (lit ''SOLVED ('' @ str_int (int (length (successful_approaches s))) @
                 lit '' groups so far):'')" by (simp add: lit_def)
  ultimately show ?thesis using True
    by (simp add: build_activity_summary_def Let_def strip_str_join_nonblank)
next
  case False
  with assms have f: "failed_approaches s \<noteq> []" by simp
  show ?thesis
  proof (cases "filter (\<lambda>f. f_category f = category) (failed_approaches s) = []")
    case False
    have "\<not> is_space 70" by (simp add: is_space_def)
    moreover have "70 \<in> set (lit ''FAILED for '' @ category @ lit '' tasks:'')" by (simp add: lit_def)
    ultimately show ?thesis using False \<open>\<not> successful_approaches s \<noteq> []\<close>
      by (simp add: build_activity_summary_def Let_def strip_str_join_nonblank)
  next
    case True
    then have "filter (\<lambda>f. f_category f \<noteq> category) (failed_approaches s) = failed_approaches s"
      by (simp add: filter_empty_conv filter_id_conv)
    with f have o: "last_n 2 (filter (\<lambda>f. f_category f \<noteq> category) (failed_approaches s)) \<noteq> []"
      by (simp add: last_n_nonempty)
    have "\<not> is_space 79" by (simp add: is_space_def)
    moreover have "79 \<in> set (lit ''Other failed approaches:'')" by (simp add: lit_def)
    ultimately show ?thesis using True o \<open>\<not> successful_approaches s \<noteq> []\<close>
      by (simp add: build_activity_summary_def Let_def strip_str_join_nonblank)
  qed
qed

lemma generate_briefing_eq:
  assumes "successful_approaches s \<noteq> [] \<or> failed_approaches s \<noteq> []"
  shows "generate_briefing task_id category profile group_size env s =
    (let rq = make_request s
                (briefing_prompt (build_activity_summary s category) category profile group_size)
                briefing_system
     in case generate s (env rq) of
          None \<Rightarrow> ([], s, [rq])
        | Some b \<Rightarrow>
            if 20 < length (strip b)
            then (operator_notes @ strip b,
                  s\<lparr>total_suggestions_made := total_suggestions_made s + 1\<rparr>, [rq])
            else ([], s, [rq]))"
proof -
  have "strip (build_activity_summary s category) \<noteq> []"
    using assms by (rule summary_nonblank)
  moreover have "b \<noteq> []" if "20 < length (strip b)" for b
    using that by auto
  ultimately show ?thesis using assms
    by (auto simp: generate_briefing_def Let_def split: option.splits)
qed

lemma bump_fields [simp]:
  "build_activity_summary (s\<lparr>groups_processed := g\<rparr>) category = build_activity_summary s category"
  "mech_text (s\<lparr>groups_processed := g\<rparr>) category = mech_text s category"
  "make_request (s\<lparr>groups_processed := g\<rparr>) p sy = make_request s p sy"
  "generate (s\<lparr>groups_processed := g\<rparr>) back = generate s back"
  by (simp_all add: build_activity_summary_def mech_text_def make_request_def generate_def
      split: transport.splits option.splits)

lemma get_context_below_threshold:
  assumes "length (successful_approaches s) + length (failed_approaches s) < 2"
  shows "get_context task_id category profile group_size env s =
     (str_join (NL @ NL) (filter (\<lambda>p. strip p \<noteq> []) [mech_text s category]),
      s\<lparr>groups_processed := groups_processed s + 1\<rparr>, [])"
  using assms by (simp add: get_context_def Let_def)

lemma get_context_above_threshold:
  assumes "2 \<le> length (successful_approaches s) + length (failed_approaches s)"
  shows "get_context task_id category profile group_size env s =
    (let rq = make_request s
                (briefing_prompt (build_activity_summary s category) category profile group_size)
                briefing_system;
         s1 = s\<lparr>groups_processed := groups_processed s + 1\<rparr>
     in case generate s (env rq) of
          None \<Rightarrow> (str_join (NL @ NL) (filter (\<lambda>p. strip p \<noteq> []) [mech_text s category]), s1, [rq])
        | Some b \<Rightarrow>
            if 20 < length (strip b)
            then (str_join (NL @ NL)
                    (filter (\<lambda>p. strip p \<noteq> []) [mech_text s category, operator_notes @ strip b]),
                  s1\<lparr>total_suggestions_made := total_suggestions_made s + 1\<rparr>, [rq])
            else (str_join (NL @ NL) (filter (\<lambda>p. strip p \<noteq> []) [mech_text s category]), s1, [rq]))"
proof -
  let ?s1 = "s\<lparr>groups_processed := groups_processed s + 1\<rparr>"
  from assms have ne: "successful_approaches ?s1 \<noteq> [] \<or> failed_approaches ?s1 \<noteq> []"
    by auto
  show ?thesis
    using assms unfolding get_context_def Let_def generate_briefing_eq [OF ne]
    by (simp split: option.splits)
qed

lemma get_context_state:
  "fst (snd (get_context task_id category profile group_size env s)) =
       s\<lparr>groups_processed := groups_processed s + 1\<rparr> \<or>
   fst (snd (get_context task_id category profile group_size env s)) =
       s\<lparr>groups_processed := groups_processed s + 1,
         total_suggestions_made := total_suggestions_made s + 1\<rparr>"
proof (cases "2 \<le> length (successful_approaches s) + length (failed_approaches s)")
  case True
  show ?thesis unfolding get_context_above_threshold [OF True] Let_def
    by (simp split: option.splits)
next
  case False
  then have "length (successful_approaches s) + length (failed_approaches s) < 2" by simp
  then show ?thesis by (simp add: get_context_below_threshold)
qed


subsection \<open>What the calls leave unchanged\<close>

lemma get_context_stores:
  "activity_log (fst (snd (get_context t c p g env s))) = activity_log s"
  "successful_approaches (fst (snd (get_context t c p g env s))) = successful_approaches s"
  "failed_approaches (fst (snd (get_context t c p g env s))) = failed_approaches s"
  "active_profiles (fst (snd (get_context t c p g env s))) = active_profiles s"
  using get_context_state [of t c p g env s] by auto

lemma exec_caps_ok: "caps_ok s \<Longrightarrow> caps_ok (exec s c)"
proof (cases c)
  case (Record_profile task_id profile)
  assume ok: "caps_ok s"
  have "length (take 500 profile) \<le> 500" by simp
  moreover from ok have "\<forall>kv \<in> set (active_profiles s). length (snd kv) \<le> 500"
    by (simp add: caps_ok_def)
  ultimately have "\<forall>kv \<in> set (AList.update task_id (take 500 profile) (active_profiles s)).
      length (snd kv) \<le> 500"
    by (rule update_entries_all [where P = "\<lambda>k v. length v \<le> 500"])
  with ok Record_profile show ?thesis by (simp add: caps_ok_def record_profile_def)
qed (auto simp: caps_ok_def initialize_def observe_def record_success_def record_failure_def
      get_context_stores)

lemma run_caps_ok: "caps_ok s \<Longrightarrow> caps_ok (run s calls)"
  unfolding run_def by (induction calls arbitrary: s) (simp_all add: exec_caps_ok)

lemma exec_no_approaches:
  "\<not> records_approach c \<Longrightarrow> successful_approaches s = [] \<and> failed_approaches s = [] \<Longrightarrow>
     successful_approaches (exec s c) = [] \<and> failed_approaches (exec s c) = []"
  by (cases c) (simp_all add: records_approach_def initialize_def observe_def record_profile_def
      get_context_stores)

lemma run_no_approaches:
  "\<forall>c \<in> set calls. \<not> records_approach c \<Longrightarrow>
     successful_approaches s = [] \<and> failed_approaches s = [] \<Longrightarrow>
     successful_approaches (run s calls) = [] \<and> failed_approaches (run s calls) = []"
  unfolding run_def
proof (induction calls arbitrary: s)
  case Nil
  then show ?case by simp
next
  case (Cons c calls)
  from Cons.prems have "successful_approaches (exec s c) = [] \<and> failed_approaches (exec s c) = []"
    by (intro exec_no_approaches) simp_all
  with Cons.IH [of "exec s c"] Cons.prems(1) show ?case by simp
qed

lemma mech_text_empty:
  "successful_approaches s = [] \<Longrightarrow> failed_approaches s = [] \<Longrightarrow> mech_text s category = []"
  by (simp add: mech_text_def)


subsection \<open>The example session and the generator's failure cases\<close>

lemma two_failures_fields:
  "successful_approaches two_failures = []"
  "length (failed_approaches two_failures) = 2"
  "client two_failures = False"
  "total_suggestions_made two_failures = 0"
  by (simp_all add: two_failures_def record_failure_def init_def)

lemma generate_failures:
  "generate s Transport_error = None"
  "status_code \<noteq> 200 \<Longrightarrow> generate s (Reply status_code body) = None"
  "generate s (Reply status_code None) = None"
  by (simp_all add: generate_def)

lemma generate_httpx_fallback:
  "client s \<Longrightarrow> response data = Some [] \<or> response data = None \<Longrightarrow> thinking data = Some r \<Longrightarrow>
     r \<noteq> [] \<Longrightarrow> generate s (Reply 200 (Some data)) = Some r"
  by (auto simp: generate_def)


section \<open>The claims about the allocation engine\<close>














text \<open>
  Claim C5 (unknown names). A model name that is not a key of the catalogue gets the
  specification of \<^verbatim>\<open>qwen3:4b\<close>: base 2.5 GB, 0.3 GB per slot, tier 1. Its memory at
  a degree is computed from these figures, the scan over the candidates runs as it does for
  \<^verbatim>\<open>qwen3:4b\<close> itself, and when the name is in the input list the returned dictionary
  has an entry for it, of tier 1 and source \<^verbatim>\<open>qwen3:4b\<close>, allocated or skipped like
  any other.
\<close>

theorem unknown_model_gets_default_spec:
  assumes "m \<notin> fst ` set MODELS"
  shows "get_spec m = \<lparr>base_gb = 5/2, kv_gb = 3/10, tier = 1, source = ''qwen3:4b''\<rparr> \<and>
     get_spec m = get_spec ''qwen3:4b'' \<and>
     model_memory m p = 5/2 + of_int p * (3/10) \<and>
     scan_steps m target min_degree available ps = scan_steps ''qwen3:4b'' target min_degree available ps \<and>
     (m \<in> set models \<longrightarrow>
        (\<exists>e. map_of (allocate_stack models hw min_degree) m = Some e \<and>
             entry_tier e = 1 \<and> entry_source e = ''qwen3:4b'' \<and>
             (0 < parallel e \<and> status e = None \<or>
              parallel e = 0 \<and> memory_gb e = 0 \<and> status e = Some ''skipped'')))"
proof -
  from assms have "map_of MODELS m = None" by (simp add: map_of_eq_None_iff)
  then have g: "get_spec m = \<lparr>base_gb = 5/2, kv_gb = 3/10, tier = 1, source = ''qwen3:4b''\<rparr>"
    by (simp add: get_spec_def qwen3_4b_def)
  have q: "get_spec ''qwen3:4b'' = \<lparr>base_gb = 5/2, kv_gb = 3/10, tier = 1, source = ''qwen3:4b''\<rparr>"
    by (simp add: get_spec_def MODELS_def qwen3_4b_def)
  have mm: "model_memory m d = model_memory ''qwen3:4b'' d" for d
    by (simp add: model_memory_def g q)
  have sc: "scan_steps m target min_degree available ps = scan_steps ''qwen3:4b'' target min_degree available ps"
    by (induction ps) (simp_all add: mm Let_def)
  have en: "\<exists>e. map_of (allocate_stack models hw min_degree) m = Some e \<and>
             entry_tier e = 1 \<and> entry_source e = ''qwen3:4b'' \<and>
             (0 < parallel e \<and> status e = None \<or>
              parallel e = 0 \<and> memory_gb e = 0 \<and> status e = Some ''skipped'')" if "m \<in> set models"
  proof -
    from that obtain e where e: "map_of (allocate_stack models hw min_degree) m = Some e" "entry_ok m e"
      using allocate_stack_entry by blast
    from e(2) have "entry_tier e = 1 \<and> entry_source e = ''qwen3:4b'' \<and>
             (0 < parallel e \<and> status e = None \<or>
              parallel e = 0 \<and> memory_gb e = 0 \<and> status e = Some ''skipped'')"
      using PARALLEL_STEPS_positive [of "parallel e"] by (auto simp: entry_ok_def g)
    with e(1) show ?thesis by blast
  qed
  from g q sc en show ?thesis by (simp add: model_memory_def)
qed


theorem unknown_model_gets_default_spec_witness:
  "''llama3:70b'' \<notin> fst ` set MODELS \<and>
   get_spec ''llama3:70b'' = \<lparr>base_gb = 5/2, kv_gb = 3/10, tier = 1, source = ''qwen3:4b''\<rparr> \<and>
   map_of (allocate_stack [''coder'', ''llama3:70b'']
       \<lparr>gpu_mem_gb = 24, reserve_pct = Some (1/5), peak_parallel = Some 4, max_parallel = Some 8\<rparr> 1)
     ''llama3:70b'' \<noteq> None"
proof -
  let ?hw = "\<lparr>gpu_mem_gb = 24, reserve_pct = Some (1/5), peak_parallel = Some 4, max_parallel = Some 8\<rparr>"
  have n: "''llama3:70b'' \<notin> fst ` set MODELS" by (simp add: MODELS_def)
  have m: "''llama3:70b'' \<in> set [''coder'', ''llama3:70b'']" by simp
  note u = unknown_model_gets_default_spec [OF n, of 4 0 1 0 "[]" "[''coder'', ''llama3:70b'']" ?hw]
  from u have g: "get_spec ''llama3:70b'' = \<lparr>base_gb = 5/2, kv_gb = 3/10, tier = 1, source = ''qwen3:4b''\<rparr>"
    by (rule conjunct1)
  from u m have "map_of (allocate_stack [''coder'', ''llama3:70b''] ?hw 1) ''llama3:70b'' \<noteq> None"
    by blast
  with n g show ?thesis by blast
qed


section \<open>The claims about the coordination layer\<close>

text \<open>
  Claim C6 (truncation caps). Each recording method appends one record whose text fields are
  the arguments cut once with a slice: \<^verbatim>\<open>record_success\<close> stores the first 400
  characters of the approach (inputs of length 399, 400 and 401 give stored lengths 399, 400
  and 400) and of the profile, \<^verbatim>\<open>record_failure\<close> the first 300 characters of the
  approach, \<^verbatim>\<open>record_profile\<close> the first 500 characters of the profile and
  \<^verbatim>\<open>observe\<close> the first 300 characters of the detail. After any sequence of calls on a
  fresh object, every stored text is within its cap.
\<close>

theorem record_truncation_caps:
  "successful_approaches (record_success category approach n profile s) =
     successful_approaches s @
       [\<lparr>s_category = category, s_approach = take 400 approach,
         s_profile = take 400 profile, s_count = n\<rparr>] \<and>
   failed_approaches (record_failure category approach s) =
     failed_approaches s @ [\<lparr>f_category = category, f_approach = take 300 approach\<rparr>] \<and>
   length (s_approach (last (successful_approaches (record_success category approach n profile s))))
     = min (length approach) 400 \<and>
   (length approach = 399 \<longrightarrow>
      length (s_approach (last (successful_approaches
        (record_success category approach n profile s)))) = 399) \<and>
   (length approach = 400 \<longrightarrow>
      length (s_approach (last (successful_approaches
        (record_success category approach n profile s)))) = 400) \<and>
   (length approach = 401 \<longrightarrow>
      length (s_approach (last (successful_approaches
        (record_success category approach n profile s)))) = 400) \<and>
   length (f_approach (last (failed_approaches (record_failure category approach s))))
     = min (length approach) 300 \<and>
   length (s_profile (last (successful_approaches (record_success category approach n profile s))))
     = min (length profile) 400 \<and>
   map_of (active_profiles (record_profile task_id profile s)) task_id = Some (take 500 profile) \<and>
   length (ev_detail (last (activity_log (observe task_id stage model_id category detail now s))))
     = min (length detail) 300 \<and>
   caps_ok (run (init url operator timeout) calls)"
proof -
  have "caps_ok (init url operator timeout)" by (simp add: caps_ok_def init_def)
  then have "caps_ok (run (init url operator timeout) calls)" by (rule run_caps_ok)
  then show ?thesis
    by (simp add: record_success_def record_failure_def record_profile_def observe_def
        update_conv')
qed

theorem record_truncation_caps_witness:
  "length (replicate 401 (97::nat)) = 401 \<and>
   length (s_approach (last (successful_approaches
      (record_success (lit ''spatial'') (replicate 401 97) 1 [] (init [] [] 30))))) = 400 \<and>
   caps_ok (run (init [] [] 30) [Record_failure (lit ''spatial'') (replicate 301 97)])"
  using record_truncation_caps [where category = "lit ''spatial''" and approach = "replicate 401 97"
      and n = 1 and profile = "[]" and s = "init [] [] 30" and url = "[]" and operator = "[]"
      and timeout = 30 and calls = "[Record_failure (lit ''spatial'') (replicate 301 97)]"]
  by simp


text \<open>
  Claim C7 (nothing recorded, nothing returned). For every task, category, profile, group
  size and outside world, \<^verbatim>\<open>get_context\<close> on an object with no recorded success and no
  recorded failure returns the empty string and sends no request; this holds in particular
  after any sequence of calls that records no approach, whatever was observed or profiled.
\<close>

theorem get_context_empty_without_approaches:
  "(successful_approaches s = [] \<and> failed_approaches s = [] \<longrightarrow>
      fst (get_context task_id category profile group_size env s) = [] \<and>
      snd (snd (get_context task_id category profile group_size env s)) = []) \<and>
   ((\<forall>c \<in> set calls. \<not> records_approach c) \<longrightarrow>
      fst (get_context task_id category profile group_size env
             (run (init url operator timeout) calls)) = [])"
proof -
  have a: "fst (get_context task_id category profile group_size env s) = [] \<and>
      snd (snd (get_context task_id category profile group_size env s)) = []"
    if "successful_approaches s = [] \<and> failed_approaches s = []" for s
    using that by (simp add: get_context_below_threshold mech_text_empty)
  have "successful_approaches (run (init url operator timeout) calls) = [] \<and>
        failed_approaches (run (init url operator timeout) calls) = []"
    if "\<forall>c \<in> set calls. \<not> records_approach c"
    using that by (rule run_no_approaches) (simp add: init_def)
  with a show ?thesis by blast
qed

theorem get_context_empty_without_approaches_witness:
  "successful_approaches (observe (lit ''group_1'') (lit ''starting'') (lit ''analyst'')
       (lit ''spatial'') [] (lit ''2026-01-01T00:00:00'')
       (record_profile (lit ''group_1'') (lit ''Grid rotation'') (init [] (lit ''analyst'') 30))) = [] \<and>
   fst (get_context (lit ''group_2'') (lit ''spatial'') (lit ''Similar grid rotation'') 10
         (\<lambda>rq. Reply 200 (Some \<lparr>response = Some (lit ''Try rotating the grid by 90 degrees.''),
                                   thinking = None\<rparr>))
         (observe (lit ''group_1'') (lit ''starting'') (lit ''analyst'')
            (lit ''spatial'') [] (lit ''2026-01-01T00:00:00'')
            (record_profile (lit ''group_1'') (lit ''Grid rotation'') (init [] (lit ''analyst'') 30)))) = []"
proof -
  let ?s = "observe (lit ''group_1'') (lit ''starting'') (lit ''analyst'')
       (lit ''spatial'') [] (lit ''2026-01-01T00:00:00'')
       (record_profile (lit ''group_1'') (lit ''Grid rotation'') (init [] (lit ''analyst'') 30))"
  have e: "successful_approaches ?s = [] \<and> failed_approaches ?s = []"
    by (simp add: observe_def record_profile_def init_def)
  from get_context_empty_without_approaches [of ?s "lit ''group_2''" "lit ''spatial''"
      "lit ''Similar grid rotation''" 10
      "\<lambda>rq. Reply 200 (Some \<lparr>response = Some (lit ''Try rotating the grid by 90 degrees.''),
                                   thinking = None\<rparr>)" "[]"] e
  show ?thesis by blast
qed


text \<open>
  Claim C8 (the threshold of tier 2), as the code has it. While fewer than 2 approaches are
  recorded, \<^verbatim>\<open>get_context\<close> sends no request and returns the tier-1 text alone. Once
  at least 2 are recorded it sends exactly one request, the briefing prompt. Tier 2
  contributes exactly when the generator returns a text that, with leading and trailing
  whitespace stripped, is longer than 20 characters: then \<^verbatim>\<open>total_suggestions_made\<close> goes
  up by 1 and the stripped text, prefixed with the marker \<^verbatim>\<open>[Operator notes]\<close>, is
  joined to the tier-1 text. In every other case (no text, or a stripped text of at most 20
  characters) tier 2 contributes nothing and the counter stays.
\<close>

theorem get_context_briefing_threshold:
  "(let total = length (successful_approaches s) + length (failed_approaches s);
        s1 = s\<lparr>groups_processed := groups_processed s + 1\<rparr>;
        rq = make_request s
               (briefing_prompt (build_activity_summary s category) category profile group_size)
               briefing_system;
        joined = (\<lambda>briefing. str_join (NL @ NL)
                   (filter (\<lambda>p. strip p \<noteq> []) [mech_text s category, briefing]))
    in (total < 2 \<longrightarrow>
          get_context task_id category profile group_size env s = (joined [], s1, [])) \<and>
       (2 \<le> total \<longrightarrow>
          (case generate s (env rq) of
             None \<Rightarrow> get_context task_id category profile group_size env s = (joined [], s1, [rq])
           | Some b \<Rightarrow>
               if 20 < length (strip b)
               then get_context task_id category profile group_size env s =
                      (joined (operator_notes @ strip b),
                       s1\<lparr>total_suggestions_made := total_suggestions_made s + 1\<rparr>, [rq])
               else get_context task_id category profile group_size env s = (joined [], s1, [rq]))))"
proof (cases "2 \<le> length (successful_approaches s) + length (failed_approaches s)")
  case True
  show ?thesis using True unfolding get_context_above_threshold [OF True] Let_def
    by (simp split: option.splits)
next
  case False
  then have "length (successful_approaches s) + length (failed_approaches s) < 2" by simp
  then show ?thesis by (simp add: get_context_below_threshold Let_def)
qed

theorem get_context_briefing_threshold_witness:
  "2 \<le> length (successful_approaches two_failures) + length (failed_approaches two_failures) \<and>
   20 < length (strip (lit ''Avoid BFS and try rotating the grid first.'')) \<and>
   total_suggestions_made (fst (snd (get_context (lit ''group_2'') (lit ''spatial'') (lit ''Similar'') 10
       (\<lambda>rq. Reply 200 (Some \<lparr>response = Some (lit ''Avoid BFS and try rotating the grid first.''),
                                 thinking = None\<rparr>))
       two_failures))) = 1 \<and>
   length (snd (snd (get_context (lit ''group_2'') (lit ''spatial'') (lit ''Similar'') 10
       (\<lambda>rq. Reply 200 (Some \<lparr>response = Some (lit ''Avoid BFS and try rotating the grid first.''),
                                 thinking = None\<rparr>))
       two_failures))) = 1"
proof -
  let ?env = "\<lambda>rq :: gen_request. Reply 200 (Some \<lparr>response = Some (lit ''Avoid BFS and try rotating the grid first.''),
                                 thinking = None\<rparr>)"
  have t: "2 \<le> length (successful_approaches two_failures) + length (failed_approaches two_failures)"
    by (simp add: two_failures_fields)
  have l: "20 < length (strip (lit ''Avoid BFS and try rotating the grid first.''))"
    by (simp add: strip_def lit_def is_space_def)
  have g: "generate two_failures (?env rq) = Some (lit ''Avoid BFS and try rotating the grid first.'')" for rq
    by (simp add: generate_def two_failures_fields)
  from get_context_briefing_threshold [of two_failures "lit ''spatial''" "lit ''Similar''" 10
      "lit ''group_2''" ?env] t l
  show ?thesis unfolding Let_def g by (simp add: two_failures_fields)
qed


text \<open>The length that counts is that of the stripped text, not of the generated text: a
  generated text of 21 characters, ten of them followed by eleven newlines, exceeds 20
  characters, and still the counter stays and the result is the tier-1 text alone.\<close>

theorem get_context_padded_text_counterexample:
  "2 \<le> length (successful_approaches two_failures) + length (failed_approaches two_failures) \<and>
   generate two_failures (Reply 200 (Some \<lparr>response = Some padded_reply,
                                 thinking = None\<rparr>)) = Some padded_reply \<and>
   20 < length padded_reply \<and>
   total_suggestions_made (fst (snd (get_context (lit ''group_2'') (lit ''spatial'') (lit ''Similar'') 10
       (\<lambda>rq. Reply 200 (Some \<lparr>response = Some padded_reply,
                                 thinking = None\<rparr>))
       two_failures))) = total_suggestions_made two_failures \<and>
   fst (get_context (lit ''group_2'') (lit ''spatial'') (lit ''Similar'') 10
       (\<lambda>rq. Reply 200 (Some \<lparr>response = Some padded_reply,
                                 thinking = None\<rparr>))
       two_failures) = mech_text two_failures (lit ''spatial'')"
proof -
  let ?b = "padded_reply"
  let ?env = "\<lambda>rq :: gen_request. Reply 200 (Some \<lparr>response = Some ?b, thinking = None\<rparr>)"
  have t: "2 \<le> length (successful_approaches two_failures) + length (failed_approaches two_failures)"
    by (simp add: two_failures_fields)
  have g: "generate two_failures (?env rq) = Some ?b" for rq
    by (simp add: generate_def two_failures_fields)
  have l: "20 < length ?b" by (simp add: padded_reply_def lit_def NL_def)
  have st: "strip ?b = lit ''Avoid BFS.''"
    by (simp add: padded_reply_def strip_def lit_def is_space_def NL_def)
  have sl: "\<not> 20 < length (strip ?b)" unfolding st by (simp add: lit_def)
  have m: "strip (mech_text two_failures (lit ''spatial'')) \<noteq> []"
    by (simp add: mech_text_def two_failures_def record_failure_def init_def strip_Nil_iff
        lit_def NL_def is_space_def)
  have "get_context (lit ''group_2'') (lit ''spatial'') (lit ''Similar'') 10 ?env two_failures =
     (mech_text two_failures (lit ''spatial''),
      two_failures\<lparr>groups_processed := groups_processed two_failures + 1\<rparr>,
      [make_request two_failures
         (briefing_prompt (build_activity_summary two_failures (lit ''spatial'')) (lit ''spatial'')
            (lit ''Similar'') 10) briefing_system])"
    unfolding get_context_above_threshold [OF t] Let_def g using sl m by simp
  then show ?thesis using t g l by simp
qed


text \<open>
  Claim C9 (the generator's fallback). The claim asks that an empty \<^verbatim>\<open>response\<close> with a
  non-empty \<^verbatim>\<open>thinking\<close> always yields the thinking text. The \<^verbatim>\<open>httpx\<close> path of
  \<^verbatim>\<open>_generate\<close> does that; the \<^verbatim>\<open>aiohttp\<close> path, taken when no client was set,
  returns the empty \<^verbatim>\<open>response\<close> for the same reply. (That no failure is propagated
  holds on both paths: \<open>generate_failures\<close>.)
\<close>

theorem generate_aiohttp_path_ignores_thinking:
  "generate (initialize False (init (lit ''http://localhost:11434'') (lit ''analyst'') 30))
     (Reply 200 (Some \<lparr>response = Some [], thinking = Some (lit ''Rotate the grid first.'')\<rparr>))
     = Some [] \<and>
   generate (initialize True (init (lit ''http://localhost:11434'') (lit ''analyst'') 30))
     (Reply 200 (Some \<lparr>response = Some [], thinking = Some (lit ''Rotate the grid first.'')\<rparr>))
     = Some (lit ''Rotate the grid first.'')"
  by (simp add: generate_def initialize_def init_def lit_def)


text \<open>
  Claim C10 (frame of \<^verbatim>\<open>get_context\<close>). Every call of \<^verbatim>\<open>get_context\<close>, whatever
  it returns, adds exactly 1 to \<^verbatim>\<open>groups_processed\<close>, leaves the activity log, the
  successes, the failures and the profile cache as they were, adds 0 or 1 to
  \<^verbatim>\<open>total_suggestions_made\<close>, and changes nothing else of the object.
\<close>

theorem get_context_frame:
  "(let s' = fst (snd (get_context task_id category profile group_size env s))
    in groups_processed s' = groups_processed s + 1 \<and>
       activity_log s' = activity_log s \<and>
       successful_approaches s' = successful_approaches s \<and>
       failed_approaches s' = failed_approaches s \<and>
       active_profiles s' = active_profiles s \<and>
       (total_suggestions_made s' = total_suggestions_made s \<or>
        total_suggestions_made s' = total_suggestions_made s + 1) \<and>
       s' = s\<lparr>groups_processed := groups_processed s + 1,
              total_suggestions_made := total_suggestions_made s'\<rparr>)"
  using get_context_state [of task_id category profile group_size env s]
  unfolding Let_def by (elim disjE) simp_all

theorem get_context_frame_witness:
  "groups_processed (fst (snd (get_context (lit ''group_2'') (lit ''spatial'') (lit ''Similar'') 10
       (\<lambda>rq. Transport_error) two_failures))) = 1 \<and>
   failed_approaches (fst (snd (get_context (lit ''group_2'') (lit ''spatial'') (lit ''Similar'') 10
       (\<lambda>rq. Transport_error) two_failures))) = failed_approaches two_failures"
  using get_context_frame [of "lit ''group_2''" "lit ''spatial''" "lit ''Similar''" 10
      "\<lambda>rq. Transport_error" two_failures]
  unfolding Let_def by (simp add: two_failures_def record_failure_def init_def)


end
